theory Spec2Isabelle
  imports
    Complex_Main
    "HOL-Library.Multiset"
    "HOL-Library.Sublist"
    "HOL-Library.Char_ord"
    "HOL-Library.List_Lexorder"
begin

section \<open>The loaded table\<close>

text \<open>
  The dashboard script \<^verbatim>\<open>solution/streamlit-app.py\<close> works on one pandas DataFrame.
  A row carries the eight columns the script reads; a cell is \<open>None\<close> where pandas holds
  NaN, NaT or None. Which columns the table has is a property of the table, not of its
  rows (an empty table still has columns), so the column names are kept beside the rows;
  a field of a row whose column is absent is never read.

  \<open>Year\<close> is what \<^verbatim>\<open>pd.to_numeric(..., errors='coerce')\<close> leaves: a number or null. The
  dataset holds whole years, so the numbers are integers here. Coordinates are only
  tested for presence.
\<close>

record row =
  Date :: "int option"
  Year :: "int option"
  Primary_Type :: "string option"
  Location_Description :: "string option"
  Arrest :: "bool option"
  Latitude :: "rat option"
  Longitude :: "rat option"
  Description :: "string option"

record dataframe =
  columns :: "string list"
  rows :: "row list"

text \<open>
  The exceptions the script can meet: \<^verbatim>\<open>df['c']\<close> and \<^verbatim>\<open>dropna(subset=[...])\<close> raise
  KeyError naming the absent columns, \<^verbatim>\<open>int(nan)\<close> raises ValueError.
\<close>

datatype error = KeyError "string list" | ValueError string

text \<open>\<^verbatim>\<open>df[c]\<close>: the column as a list of cells, or KeyError.\<close>

definition getitem :: "dataframe \<Rightarrow> string \<Rightarrow> (row \<Rightarrow> 'a) \<Rightarrow> error + 'a list" where
  "getitem df c f =
     (if c \<in> set (columns df) then Inr (map f (rows df)) else Inl (KeyError [c]))"

text \<open>\<^verbatim>\<open>Series.dropna()\<close>: the non-null values, in order.\<close>

definition dropna :: "'a option list \<Rightarrow> 'a list" where
  "dropna col = List.map_filter (\<lambda>v. v) col"

section \<open>Filter options and the selection (lines 36-66)\<close>

text \<open>
  \<^verbatim>\<open>sorted(df[c].dropna().unique())\<close>. The three lines index the table without a
  column test.
\<close>

text \<open>\<^verbatim>\<open>Series.unique()\<close>: the distinct values in order of first appearance.\<close>

definition unique :: "'a list \<Rightarrow> 'a list" where
  "unique xs = rev (remdups (rev xs))"

definition options :: "dataframe \<Rightarrow> string \<Rightarrow> (row \<Rightarrow> ('a::linorder) option) \<Rightarrow> error + 'a list" where
  "options df c f =
     (case getitem df c f of
        Inl e \<Rightarrow> Inl e
      | Inr col \<Rightarrow> Inr (sort (unique (dropna col))))"

definition years :: "dataframe \<Rightarrow> error + int list" where
  "years df = options df ''Year'' Year"

definition crime_types :: "dataframe \<Rightarrow> error + string list" where
  "crime_types df = options df ''Primary Type'' Primary_Type"

definition location_descriptions :: "dataframe \<Rightarrow> error + string list" where
  "location_descriptions df = options df ''Location Description'' Location_Description"

datatype arrest_option = ArrestAll | ArrestYes | ArrestNo

text \<open>
  What the sidebar widgets return. A multiselect returns a list of its options, so a
  selection holds values only, never null.
\<close>

record selection =
  selected_years :: "int list"
  selected_crime_types :: "string list"
  selected_locations :: "string list"
  selected_arrest :: arrest_option

section \<open>Filter application (lines 68-82)\<close>

text \<open>\<^verbatim>\<open>Series.isin(values)\<close> on one cell: a null cell is in no list of values.\<close>

definition isin :: "'a option \<Rightarrow> 'a list \<Rightarrow> bool" where
  "isin v vals = (case v of None \<Rightarrow> False | Some x \<Rightarrow> x \<in> set vals)"

text \<open>\<^verbatim>\<open>df[mask]\<close>: the rows whose mask entry is true, in order; the columns stay.\<close>

definition boolean_index :: "(row \<Rightarrow> bool) \<Rightarrow> dataframe \<Rightarrow> dataframe" where
  "boolean_index keep df = df\<lparr>rows := filter keep (rows df)\<rparr>"

definition filter_years :: "selection \<Rightarrow> dataframe \<Rightarrow> dataframe" where
  "filter_years sel df =
     (if selected_years sel \<noteq> [] \<and> ''Year'' \<in> set (columns df)
      then boolean_index (\<lambda>r. isin (Year r) (selected_years sel)) df
      else df)"

definition filter_crime_types :: "selection \<Rightarrow> dataframe \<Rightarrow> dataframe" where
  "filter_crime_types sel df =
     (if selected_crime_types sel \<noteq> [] \<and> ''Primary Type'' \<in> set (columns df)
      then boolean_index (\<lambda>r. isin (Primary_Type r) (selected_crime_types sel)) df
      else df)"

definition filter_locations :: "selection \<Rightarrow> dataframe \<Rightarrow> dataframe" where
  "filter_locations sel df =
     (if selected_locations sel \<noteq> [] \<and> ''Location Description'' \<in> set (columns df)
      then boolean_index (\<lambda>r. isin (Location_Description r) (selected_locations sel)) df
      else df)"

definition filter_arrest :: "selection \<Rightarrow> dataframe \<Rightarrow> dataframe" where
  "filter_arrest sel df =
     (if selected_arrest sel \<noteq> ArrestAll \<and> ''Arrest'' \<in> set (columns df)
      then (let arrest_bool = (selected_arrest sel = ArrestYes)
            in boolean_index (\<lambda>r. Arrest r = Some arrest_bool) df)
      else df)"

text \<open>The four steps in the order of the script.\<close>

definition apply_filters :: "dataframe \<Rightarrow> selection \<Rightarrow> dataframe" where
  "apply_filters df sel =
     filter_arrest sel (filter_locations sel (filter_crime_types sel (filter_years sel df)))"

text \<open>
  The same four steps taken in an arbitrary order, to compare with the order of the
  script.
\<close>

datatype dimension = DimYear | DimPrimaryType | DimLocation | DimArrest

fun filter_dimension :: "selection \<Rightarrow> dimension \<Rightarrow> dataframe \<Rightarrow> dataframe" where
  "filter_dimension sel DimYear = filter_years sel"
| "filter_dimension sel DimPrimaryType = filter_crime_types sel"
| "filter_dimension sel DimLocation = filter_locations sel"
| "filter_dimension sel DimArrest = filter_arrest sel"

definition apply_in_order :: "dimension list \<Rightarrow> dataframe \<Rightarrow> selection \<Rightarrow> dataframe" where
  "apply_in_order ds df sel = fold (filter_dimension sel) ds df"

text \<open>
  Each step is a restriction by a predicate on single rows that depends on the selection
  and on the columns only.
\<close>

definition dimension_mask :: "selection \<Rightarrow> string list \<Rightarrow> dimension \<Rightarrow> row \<Rightarrow> bool" where
  "dimension_mask sel cols d r =
     (case d of
        DimYear \<Rightarrow>
          selected_years sel \<noteq> [] \<and> ''Year'' \<in> set cols \<longrightarrow> isin (Year r) (selected_years sel)
      | DimPrimaryType \<Rightarrow>
          selected_crime_types sel \<noteq> [] \<and> ''Primary Type'' \<in> set cols \<longrightarrow>
            isin (Primary_Type r) (selected_crime_types sel)
      | DimLocation \<Rightarrow>
          selected_locations sel \<noteq> [] \<and> ''Location Description'' \<in> set cols \<longrightarrow>
            isin (Location_Description r) (selected_locations sel)
      | DimArrest \<Rightarrow>
          selected_arrest sel \<noteq> ArrestAll \<and> ''Arrest'' \<in> set cols \<longrightarrow>
            Arrest r = Some (selected_arrest sel = ArrestYes))"


section \<open>Summary metrics (lines 84-109)\<close>

text \<open>What \<^verbatim>\<open>st.metric\<close> is given: a number or a text.\<close>

datatype metric_value = Number nat | Label string

definition total_incidents :: "dataframe \<Rightarrow> metric_value" where
  "total_incidents fdf = Number (length (rows fdf))"

text \<open>
  The \<open>Arrest\<close> column has dtype bool when the loaded table has no null in it and
  dtype object otherwise; a filtered view inherits the dtype of the loaded table, so it
  is a parameter here. On dtype bool the script sums the column, on any other it counts
  the cells equal to \<open>True\<close>.
\<close>

datatype dtype = BoolDtype | ObjectDtype

definition arrest_count :: "dtype \<Rightarrow> bool option list \<Rightarrow> nat" where
  "arrest_count dt col =
     (if dt = BoolDtype
      then sum_list (map (\<lambda>v. case v of Some True \<Rightarrow> 1 | _ \<Rightarrow> 0) col)
      else length (filter (\<lambda>v. v = Some True) col))"

definition arrests_made :: "dtype \<Rightarrow> dataframe \<Rightarrow> metric_value" where
  "arrests_made dt fdf =
     (if ''Arrest'' \<in> set (columns fdf)
      then Number (arrest_count dt (map Arrest (rows fdf)))
      else Label ''N/A'')"

definition crime_types_metric :: "dataframe \<Rightarrow> metric_value" where
  "crime_types_metric fdf =
     (if ''Primary Type'' \<in> set (columns fdf)
      then Number (length (unique (dropna (map Primary_Type (rows fdf)))))
      else Label ''N/A'')"

text \<open>Decimal text of an integer, as an f-string prints it.\<close>

fun str_nat :: "nat \<Rightarrow> string" where
  "str_nat n =
     (if n < 10 then [''0123456789'' ! n]
      else str_nat (n div 10) @ [''0123456789'' ! (n mod 10)])"

declare str_nat.simps [simp del]

definition str_int :: "int \<Rightarrow> string" where
  "str_int i = (if i < 0 then CHR ''-'' # str_nat (nat (- i)) else str_nat (nat i))"

text \<open>
  \<^verbatim>\<open>Series.min()\<close> and \<^verbatim>\<open>Series.max()\<close> skip nulls and give NaN when nothing is left.
\<close>

definition series_min :: "int option list \<Rightarrow> int option" where
  "series_min col = (case dropna col of [] \<Rightarrow> None | y # ys \<Rightarrow> Some (fold min ys y))"

definition series_max :: "int option list \<Rightarrow> int option" where
  "series_max col = (case dropna col of [] \<Rightarrow> None | y # ys \<Rightarrow> Some (fold max ys y))"

text \<open>\<^verbatim>\<open>int(x)\<close> on a number that may be NaN.\<close>

definition to_int :: "int option \<Rightarrow> error + int" where
  "to_int v =
     (case v of
        None \<Rightarrow> Inl (ValueError ''cannot convert float NaN to integer'')
      | Some n \<Rightarrow> Inr n)"

text \<open>
  Line 106: \<^verbatim>\<open>f"{int(filtered_df['Year'].min())}-{int(filtered_df['Year'].max())}"\<close>,
  under the column test of line 105 only.
\<close>

definition year_range :: "dataframe \<Rightarrow> error + metric_value" where
  "year_range fdf =
     (if ''Year'' \<in> set (columns fdf)
      then (case to_int (series_min (map Year (rows fdf))) of
              Inl e \<Rightarrow> Inl e
            | Inr lo \<Rightarrow>
                (case to_int (series_max (map Year (rows fdf))) of
                   Inl e \<Rightarrow> Inl e
                 | Inr hi \<Rightarrow> Inr (Label (str_int lo @ ''-'' @ str_int hi))))
      else Inr (Label ''N/A''))"

section \<open>Charts (lines 127-192)\<close>

text \<open>
  Two things the charts take from the libraries and the script does not fix.

  The arithmetic of line 181 is double precision: the quotient and the product are each
  rounded to the nearest double. A double is a rational number; rounding to the nearest
  one keeps the order of its arguments and leaves a double unchanged, and 0, 1 and 100
  are doubles.

  \<^verbatim>\<open>Series.sort_values(ascending=False)\<close> is called with the default \<^verbatim>\<open>kind\<close>, which pandas
  documents as not stable: the outcome holds the entries of the series in descending
  order of the value, and the order among entries of equal value is the library's.

  The rounding and the sort are therefore parameters of the model, and
  \<open>rounds_to_nearest\<close> and \<open>sorts_descending\<close> say what is known of them.
\<close>

record library =
  float_of :: "rat \<Rightarrow> rat"
  sort_rates :: "(string \<times> rat) list \<Rightarrow> (string \<times> rat) list"
  sort_counts :: "(string \<times> nat) list \<Rightarrow> (string \<times> nat) list"



text \<open>\<^verbatim>\<open>Series.value_counts()\<close>: the count of every distinct non-null value, largest first.\<close>

definition value_counts :: "library \<Rightarrow> string option list \<Rightarrow> (string \<times> nat) list" where
  "value_counts lib col =
     (let vals = dropna col
      in sort_counts lib (map (\<lambda>k. (k, count_list vals k)) (unique vals)))"

text \<open>\<^verbatim>\<open>value_counts().sort_index()\<close>: the counts in ascending order of the value.\<close>

definition value_counts_sort_index :: "('a::linorder) option list \<Rightarrow> ('a \<times> nat) list" where
  "value_counts_sort_index col =
     (let vals = dropna col in map (\<lambda>k. (k, count_list vals k)) (sort (unique vals)))"

text \<open>
  \<^verbatim>\<open>groupby('Primary Type')['Arrest']\<close>: one group for every distinct non-null primary
  type, in ascending order of the type, holding the \<open>Arrest\<close> cells of its rows in table
  order. Rows with a null primary type are in no group.
\<close>

definition groupby_primary_type :: "dataframe \<Rightarrow> (string \<times> bool option list) list" where
  "groupby_primary_type fdf =
     map (\<lambda>k. (k, map Arrest (filter (\<lambda>r. Primary_Type r = Some k) (rows fdf))))
         (sort (unique (dropna (map Primary_Type (rows fdf)))))"

text \<open>
  The lambda of line 181, \<^verbatim>\<open>(x == True).sum() / len(x) * 100 if len(x) > 0 else 0\<close>: the
  two counts are whole numbers, the quotient is rounded, and so is its product with 100.
\<close>

definition arrest_rate :: "library \<Rightarrow> bool option list \<Rightarrow> rat" where
  "arrest_rate lib x =
     (if length x > 0
      then float_of lib
             (float_of lib (of_nat (length (filter (\<lambda>v. v = Some True) x)) / of_nat (length x))
              * 100)
      else 0)"

text \<open>The series before and after \<^verbatim>\<open>.sort_values(ascending=False).head(15)\<close>.\<close>

definition group_rates :: "library \<Rightarrow> dataframe \<Rightarrow> (string \<times> rat) list" where
  "group_rates lib fdf = map (\<lambda>(k, x). (k, arrest_rate lib x)) (groupby_primary_type fdf)"

definition arrest_rates :: "library \<Rightarrow> dataframe \<Rightarrow> (string \<times> rat) list" where
  "arrest_rates lib fdf = take 15 (sort_rates lib (group_rates lib fdf))"

datatype viz_type =
  CrimeTypeDistribution | CrimesByYear | LocationDescriptionDistribution
  | ArrestRateByCrimeType

datatype chart =
  FrequencyChart "(string \<times> nat) list"
  | YearChart "(int \<times> nat) list"
  | RateChart "(string \<times> rat) list"
  | ChartWarning string

fun visualization :: "library \<Rightarrow> viz_type \<Rightarrow> dataframe \<Rightarrow> chart" where
  "visualization lib CrimeTypeDistribution fdf =
     (if ''Primary Type'' \<in> set (columns fdf)
      then FrequencyChart (take 15 (value_counts lib (map Primary_Type (rows fdf))))
      else ChartWarning ''Primary Type column not available'')"
| "visualization lib CrimesByYear fdf =
     (if ''Year'' \<in> set (columns fdf)
      then YearChart (value_counts_sort_index (map Year (rows fdf)))
      else ChartWarning ''Year column not available'')"
| "visualization lib LocationDescriptionDistribution fdf =
     (if ''Location Description'' \<in> set (columns fdf)
      then FrequencyChart (take 15 (value_counts lib (map Location_Description (rows fdf))))
      else ChartWarning ''Location Description column not available'')"
| "visualization lib ArrestRateByCrimeType fdf =
     (if ''Primary Type'' \<in> set (columns fdf) \<and> ''Arrest'' \<in> set (columns fdf)
      then RateChart (arrest_rates lib fdf)
      else ChartWarning ''Required columns (Primary Type, Arrest) not available'')"




section \<open>Map view (lines 194-227)\<close>

text \<open>
  \<^verbatim>\<open>dropna(subset=['Latitude', 'Longitude'])\<close>: KeyError with the names of the subset
  that are no columns, else the rows with both cells present.
\<close>

definition dropna_subset :: "dataframe \<Rightarrow> error + dataframe" where
  "dropna_subset fdf =
     (let missing = filter (\<lambda>c. c \<notin> set (columns fdf)) [''Latitude'', ''Longitude'']
      in if missing \<noteq> [] then Inl (KeyError missing)
         else Inr (boolean_index (\<lambda>r. Latitude r \<noteq> None \<and> Longitude r \<noteq> None) fdf))"

text \<open>
  The bounds and the default the script hands to the slider, and the rows it plots:
  \<^verbatim>\<open>map_df.head(max_points)\<close>, where \<open>max_points\<close> is the value the slider returns.
\<close>

record slider_args =
  min_value :: nat
  max_value :: nat
  default_value :: nat

datatype map_output = MapWarning string | ScatterMap slider_args "row list"

definition map_view :: "dataframe \<Rightarrow> nat \<Rightarrow> error + map_output" where
  "map_view fdf max_points =
     (case dropna_subset fdf of
        Inl e \<Rightarrow> Inl e
      | Inr map_df \<Rightarrow>
          Inr (if length (rows map_df) > 0
               then ScatterMap
                      \<lparr>min_value = 100, max_value = min 1000 (length (rows map_df)),
                       default_value = 500\<rparr>
                      (take max_points (rows map_df))
               else MapWarning ''No data points with valid coordinates available''))"

section \<open>The script from top to bottom\<close>

text \<open>
  One run of the script on the loaded table, with the libraries and what the widgets
  return as inputs. An
  exception ends the run where it is raised. The preview tab hands the filtered view
  and its descriptive statistics to the table widget and is left out, as are the calls
  that draw a chart or a map from the data computed here.
\<close>

record page =
  year_options :: "int list"
  crime_type_options :: "string list"
  location_options :: "string list"
  filtered_df :: dataframe
  metric_total :: metric_value
  metric_arrests :: metric_value
  metric_crime_types :: metric_value
  metric_year_range :: metric_value
  chart_shown :: chart
  map_shown :: map_output

definition dashboard ::
  "library \<Rightarrow> dataframe \<Rightarrow> selection \<Rightarrow> dtype \<Rightarrow> viz_type \<Rightarrow> nat \<Rightarrow> error + page"
  where
  "dashboard lib df sel dt viz max_points =
     (case years df of Inl e \<Rightarrow> Inl e | Inr ys \<Rightarrow>
     (case crime_types df of Inl e \<Rightarrow> Inl e | Inr ts \<Rightarrow>
     (case location_descriptions df of Inl e \<Rightarrow> Inl e | Inr ls \<Rightarrow>
     (let fdf = apply_filters df sel in
     (case year_range fdf of Inl e \<Rightarrow> Inl e | Inr yr \<Rightarrow>
     (let ch = visualization lib viz fdf in
     (case map_view fdf max_points of Inl e \<Rightarrow> Inl e | Inr mp \<Rightarrow>
        Inr \<lparr>year_options = ys, crime_type_options = ts, location_options = ls,
             filtered_df = fdf, metric_total = total_incidents fdf,
             metric_arrests = arrests_made dt fdf,
             metric_crime_types = crime_types_metric fdf,
             metric_year_range = yr, chart_shown = ch, map_shown = mp\<rparr>)))))))"

section \<open>Sample tables\<close>

definition incident ::
  "int option \<Rightarrow> string option \<Rightarrow> string option \<Rightarrow> bool option \<Rightarrow> row" where
  "incident y t l a =
     \<lparr>Date = None, Year = y, Primary_Type = t, Location_Description = l, Arrest = a,
      Latitude = None, Longitude = None, Description = None\<rparr>"

definition all_columns :: "string list" where
  "all_columns =
     [''Date'', ''Year'', ''Primary Type'', ''Location Description'', ''Arrest'',
      ''Latitude'', ''Longitude'', ''Description'']"

definition sample_table :: dataframe where
  "sample_table =
     \<lparr>columns = all_columns,
      rows = [incident (Some 2020) (Some ''THEFT'') (Some ''STREET'') (Some True),
              incident (Some 2021) (Some ''THEFT'') (Some ''STREET'') (Some False),
              incident None (Some ''BATTERY'') None (Some True),
              incident (Some 2020) (Some ''BATTERY'') (Some ''STREET'') (Some True)]\<rparr>"

definition sample_selection :: selection where
  "sample_selection =
     \<lparr>selected_years = [2020], selected_crime_types = [''BATTERY'', ''THEFT''],
      selected_locations = [], selected_arrest = ArrestYes\<rparr>"


text \<open>A row with both coordinates, told apart by its date, and a table of 500 of them
  behind one row without coordinates.\<close>

definition geo_incident :: "nat \<Rightarrow> row" where
  "geo_incident i =
     \<lparr>Date = Some (int i), Year = Some 2020, Primary_Type = Some ''THEFT'',
      Location_Description = None, Arrest = Some False,
      Latitude = Some 41, Longitude = Some (- 87), Description = None\<rparr>"

definition geo_table :: dataframe where
  "geo_table =
     \<lparr>columns = all_columns,
      rows = incident (Some 2020) (Some ''THEFT'') None (Some True)
             # map geo_incident [0..<500]\<rparr>"

text \<open>A table read from a file that lacks one of the columns.\<close>

definition without_column :: "string \<Rightarrow> dataframe \<Rightarrow> dataframe" where
  "without_column c df = df\<lparr>columns := removeAll c (columns df)\<rparr>"

text \<open>A selection that no row of the sample table satisfies.\<close>

definition no_match_selection :: selection where
  "no_match_selection =
     \<lparr>selected_years = [2021], selected_crime_types = [''BATTERY''],
      selected_locations = [], selected_arrest = ArrestAll\<rparr>"

text \<open>Three valid rows only: fewer than the least value the script gives the slider.\<close>

definition few_geo_table :: dataframe where
  "few_geo_table = \<lparr>columns = all_columns, rows = map geo_incident [0..<3]\<rparr>"




section \<open>Filter application: properties\<close>

lemma columns_boolean_index: "columns (boolean_index keep df) = columns df"
  by (simp add: boolean_index_def)

lemma rows_boolean_index: "rows (boolean_index keep df) = filter keep (rows df)"
  by (simp add: boolean_index_def)

lemma boolean_index_commute:
  "boolean_index p (boolean_index q df) = boolean_index q (boolean_index p df)"
  by (simp add: boolean_index_def conj_commute)

lemma columns_filter_dimension: "columns (filter_dimension sel d df) = columns df"
  by (cases d)
     (simp_all add: filter_years_def filter_crime_types_def filter_locations_def
        filter_arrest_def Let_def columns_boolean_index)

lemma length_rows_filter_dimension:
  "length (rows (filter_dimension sel d df)) \<le> length (rows df)"
  by (cases d)
     (simp_all add: filter_years_def filter_crime_types_def filter_locations_def
        filter_arrest_def Let_def rows_boolean_index)

lemma boolean_index_True: "boolean_index (\<lambda>r. True) df = df"
  by (simp add: boolean_index_def)

lemma filter_dimension_mask:
  "filter_dimension sel d df = boolean_index (\<lambda>r. dimension_mask sel (columns df) d r) df"
  by (cases d)
     (simp_all add: filter_years_def filter_crime_types_def filter_locations_def
        filter_arrest_def Let_def dimension_mask_def boolean_index_def)

lemma filter_dimension_commute:
  "filter_dimension sel d (filter_dimension sel e df) =
   filter_dimension sel e (filter_dimension sel d df)"
  by (simp add: filter_dimension_mask columns_boolean_index boolean_index_commute)

lemma apply_filters_in_order:
  "apply_filters df sel = apply_in_order [DimYear, DimPrimaryType, DimLocation, DimArrest] df sel"
  by (simp add: apply_filters_def apply_in_order_def)

lemma apply_in_order_mset:
  assumes "mset ds = mset es"
  shows "apply_in_order ds df sel = apply_in_order es df sel"
proof -
  have "fold (filter_dimension sel) ds = fold (filter_dimension sel) es"
    by (rule fold_multiset_equiv) (auto simp: assms fun_eq_iff filter_dimension_commute)
  then show ?thesis
    by (simp add: apply_in_order_def)
qed

lemma length_rows_apply_in_order:
  "length (rows (apply_in_order ds df sel)) \<le> length (rows df)"
proof (induction ds arbitrary: df)
  case Nil
  then show ?case by (simp add: apply_in_order_def)
next
  case (Cons d ds)
  have "length (rows (apply_in_order ds (filter_dimension sel d df) sel))
        \<le> length (rows (filter_dimension sel d df))"
    by (rule Cons.IH)
  also have "\<dots> \<le> length (rows df)"
    by (rule length_rows_filter_dimension)
  finally show ?case
    by (simp add: apply_in_order_def)
qed

text \<open>
  C9. For every table and every selection, the filtered subset has at most as many rows
  as the table.
\<close>

theorem apply_filters_length_le:
  "length (rows (apply_filters df sel)) \<le> length (rows df)"
  unfolding apply_filters_in_order by (rule length_rows_apply_in_order)

lemma columns_apply_in_order: "columns (apply_in_order ds df sel) = columns df"
  by (induction ds arbitrary: df) (simp_all add: apply_in_order_def columns_filter_dimension)

lemma rows_apply_in_order:
  "rows (apply_in_order ds df sel) =
   filter (\<lambda>r. list_all (\<lambda>d. dimension_mask sel (columns df) d r) ds) (rows df)"
proof (induction ds arbitrary: df)
  case Nil
  then show ?case by (simp add: apply_in_order_def)
next
  case (Cons d ds)
  have "rows (apply_in_order (d # ds) df sel) = rows (apply_in_order ds (filter_dimension sel d df) sel)"
    by (simp add: apply_in_order_def)
  also have "\<dots> = filter (\<lambda>r. list_all (\<lambda>e. dimension_mask sel (columns df) e r) ds)
                     (rows (filter_dimension sel d df))"
    by (simp add: Cons.IH columns_filter_dimension)
  also have "rows (filter_dimension sel d df) = filter (\<lambda>r. dimension_mask sel (columns df) d r) (rows df)"
    by (simp add: filter_dimension_mask rows_boolean_index)
  finally show ?case
    by (simp add: conj_commute)
qed

text \<open>
  C4. For every table and every selection, the four dimension filters applied in any
  order (the orders are the lists with the same elements as the script's order, 24 of
  them) give the filtered subset the script computes: the same columns and the same rows
  in the same order.
\<close>

theorem apply_filters_order_independent:
  assumes "mset ds = mset [DimYear, DimPrimaryType, DimLocation, DimArrest]"
  shows "apply_in_order ds df sel = apply_filters df sel"
  unfolding apply_filters_in_order using assms by (rule apply_in_order_mset)

lemmas filter_defs =
  apply_filters_def apply_in_order_def filter_years_def filter_crime_types_def
  filter_locations_def filter_arrest_def boolean_index_def isin_def Let_def

theorem apply_filters_order_independent_witness:
  "mset [DimArrest, DimLocation, DimYear, DimPrimaryType]
     = mset [DimYear, DimPrimaryType, DimLocation, DimArrest]
   \<and> apply_in_order [DimArrest, DimLocation, DimYear, DimPrimaryType] sample_table sample_selection
     = apply_filters sample_table sample_selection
   \<and> rows (apply_filters sample_table sample_selection)
     = [incident (Some 2020) (Some ''THEFT'') (Some ''STREET'') (Some True),
        incident (Some 2020) (Some ''BATTERY'') (Some ''STREET'') (Some True)]"
  using apply_filters_order_independent
    [of "[DimArrest, DimLocation, DimYear, DimPrimaryType]" sample_table sample_selection]
  by (simp add: filter_defs sample_table_def sample_selection_def all_columns_def incident_def)

text \<open>
  C5. An empty selection on a dimension restricts nothing: the step of that dimension
  returns the table unchanged, the filtered subset is the one the other three dimensions
  give, and with the three sets empty and arrest set to All the filtered subset is the
  full table.
\<close>

theorem empty_selection_no_restriction:
  "filter_years (sel\<lparr>selected_years := []\<rparr>) df = df
   \<and> filter_crime_types (sel\<lparr>selected_crime_types := []\<rparr>) df = df
   \<and> filter_locations (sel\<lparr>selected_locations := []\<rparr>) df = df
   \<and> filter_arrest (sel\<lparr>selected_arrest := ArrestAll\<rparr>) df = df
   \<and> apply_filters df (sel\<lparr>selected_years := []\<rparr>)
       = filter_arrest sel (filter_locations sel (filter_crime_types sel df))
   \<and> apply_filters df (sel\<lparr>selected_crime_types := []\<rparr>)
       = filter_arrest sel (filter_locations sel (filter_years sel df))
   \<and> apply_filters df (sel\<lparr>selected_locations := []\<rparr>)
       = filter_arrest sel (filter_crime_types sel (filter_years sel df))
   \<and> apply_filters df
        \<lparr>selected_years = [], selected_crime_types = [], selected_locations = [],
         selected_arrest = ArrestAll\<rparr> = df"
  by (simp add: apply_filters_def filter_years_def filter_crime_types_def
        filter_locations_def filter_arrest_def)

lemma isin_not_None: "isin v vals \<Longrightarrow> v \<noteq> None"
  by (cases v) (simp_all add: isin_def)

text \<open>
  C10. With a non-empty selection on year, primary type or location description (and
  the column in the table), no row of the filtered subset has a null in that column:
  \<open>isin\<close> never matches a null. The sample table has a row with a null year that the
  selection of the year 2020 removes.
\<close>

theorem nonempty_selection_excludes_null:
  assumes "r \<in> set (rows (apply_filters df sel))"
  shows "(selected_years sel \<noteq> [] \<and> ''Year'' \<in> set (columns df) \<longrightarrow> Year r \<noteq> None)
       \<and> (selected_crime_types sel \<noteq> [] \<and> ''Primary Type'' \<in> set (columns df)
            \<longrightarrow> Primary_Type r \<noteq> None)
       \<and> (selected_locations sel \<noteq> [] \<and> ''Location Description'' \<in> set (columns df)
            \<longrightarrow> Location_Description r \<noteq> None)"
proof -
  from assms have "list_all (\<lambda>d. dimension_mask sel (columns df) d r)
      [DimYear, DimPrimaryType, DimLocation, DimArrest]"
    by (simp add: apply_filters_in_order rows_apply_in_order)
  then show ?thesis
    by (auto simp: dimension_mask_def dest: isin_not_None)
qed

theorem nonempty_selection_excludes_null_witness:
  "incident (Some 2020) (Some ''BATTERY'') (Some ''STREET'') (Some True)
     \<in> set (rows (apply_filters sample_table sample_selection))
   \<and> selected_years sample_selection \<noteq> []
   \<and> ''Year'' \<in> set (columns sample_table)
   \<and> Year (incident (Some 2020) (Some ''BATTERY'') (Some ''STREET'') (Some True)) \<noteq> None
   \<and> incident None (Some ''BATTERY'') None (Some True) \<in> set (rows sample_table)
   \<and> incident None (Some ''BATTERY'') None (Some True)
       \<notin> set (rows (apply_filters sample_table sample_selection))"
  using nonempty_selection_excludes_null
    [of "incident (Some 2020) (Some ''BATTERY'') (Some ''STREET'') (Some True)"
        sample_table sample_selection]
  by (simp add: filter_defs sample_table_def sample_selection_def all_columns_def incident_def)

section \<open>Summary metrics: properties\<close>

lemma sum_arrest_column:
  "sum_list (map (\<lambda>v. case v of Some True \<Rightarrow> 1 | _ \<Rightarrow> 0) col)
   = length (filter (\<lambda>v. v = Some True) col)"
  by (induction col) (auto split: option.splits bool.splits)

lemma arrest_count_eq: "arrest_count dt col = length (filter (\<lambda>v. v = Some True) col)"
  by (simp add: arrest_count_def sum_arrest_column)

lemma length_filter_map: "length (filter P (map f xs)) = length (filter (\<lambda>x. P (f x)) xs)"
  by (induction xs) simp_all

text \<open>
  C6. When the filtered view has the arrest column, the arrest metric is the number of
  its rows whose arrest flag is true, whatever the dtype of the column; when the column
  is absent it is the text N/A, which is no number, so no arrests and no column stay
  apart.
\<close>

theorem arrests_made_metric:
  "arrests_made dt fdf =
     (if ''Arrest'' \<in> set (columns fdf)
      then Number (length (filter (\<lambda>r. Arrest r = Some True) (rows fdf)))
      else Label ''N/A'')
   \<and> (\<forall>n. Label ''N/A'' \<noteq> Number n)"
  by (simp add: arrests_made_def arrest_count_eq length_filter_map comp_def)

lemma dropna_Nil_iff: "dropna col = [] \<longleftrightarrow> (\<forall>v \<in> set col. v = None)"
  by (induction col) (auto simp: dropna_def split: option.splits)

lemma year_range_no_values:
  assumes "''Year'' \<in> set (columns fdf)" and "\<forall>r \<in> set (rows fdf). Year r = None"
  shows "year_range fdf = Inl (ValueError ''cannot convert float NaN to integer'')"
proof -
  from assms(2) have "dropna (map Year (rows fdf)) = []"
    by (simp add: dropna_Nil_iff)
  with assms(1) show ?thesis
    by (simp add: year_range_def series_min_def to_int_def)
qed

text \<open>
  C3. The year-range metric on a filtered view that has the year column and no year
  value: the selection leaves no row of the sample table, and line 106 raises ValueError
  where the specification has the text N/A. With a year value left, the metric is the text of
  the least and the greatest year.
\<close>

theorem year_range_empty_view_raises:
  "''Year'' \<in> set (columns (apply_filters sample_table no_match_selection))
   \<and> rows (apply_filters sample_table no_match_selection) = []
   \<and> year_range (apply_filters sample_table no_match_selection)
       = Inl (ValueError ''cannot convert float NaN to integer'')
   \<and> year_range sample_table = Inr (Label ''2020-2021'')"
  by (simp add: filter_defs sample_table_def no_match_selection_def all_columns_def
        incident_def year_range_def series_min_def series_max_def to_int_def dropna_def
        str_int_def str_nat.simps)

section \<open>The script on tables that lack a column\<close>

text \<open>
  C2. A table without the \<open>Year\<close> column: the filter step of line 71 skips the
  dimension, but line 37 has indexed the table before, so the option list of the year
  filter is never built and the run ends in KeyError.
\<close>

theorem missing_year_column_raises:
  "''Year'' \<notin> set (columns (without_column ''Year'' sample_table))
   \<and> filter_years sample_selection (without_column ''Year'' sample_table)
       = without_column ''Year'' sample_table
   \<and> years (without_column ''Year'' sample_table) = Inl (KeyError [''Year''])
   \<and> dashboard lib (without_column ''Year'' sample_table) sample_selection dt viz max_points
       = Inl (KeyError [''Year''])"
  by (simp add: without_column_def sample_table_def all_columns_def filter_years_def
        dashboard_def years_def options_def getitem_def)

text \<open>
  C1. Three runs that end in an exception: a table without the \<open>Primary Type\<close> column
  (line 45), a selection that leaves no row (line 106), a table without the \<open>Longitude\<close>
  column (line 198).
\<close>

theorem dashboard_raises:
  "dashboard lib (without_column ''Primary Type'' sample_table) sample_selection dt viz max_points
     = Inl (KeyError [''Primary Type''])
   \<and> dashboard lib sample_table no_match_selection dt viz max_points
     = Inl (ValueError ''cannot convert float NaN to integer'')
   \<and> dashboard lib (without_column ''Longitude'' sample_table) sample_selection dt viz max_points
     = Inl (KeyError [''Longitude''])"
  by (simp add: without_column_def sample_table_def all_columns_def incident_def
        sample_selection_def no_match_selection_def filter_defs
        dashboard_def years_def crime_types_def location_descriptions_def options_def
        getitem_def year_range_def series_min_def series_max_def to_int_def dropna_def
        map_view_def dropna_subset_def)

section \<open>Map view: properties\<close>

text \<open>With both coordinate columns the map view is a prefix of the rows that have both.\<close>

lemma map_view_with_coordinates:
  assumes "''Latitude'' \<in> set (columns fdf)" and "''Longitude'' \<in> set (columns fdf)"
  shows "map_view fdf max_points =
     Inr (let valid = filter (\<lambda>r. Latitude r \<noteq> None \<and> Longitude r \<noteq> None) (rows fdf)
          in if valid = []
             then MapWarning ''No data points with valid coordinates available''
             else ScatterMap
                    \<lparr>min_value = 100, max_value = min 1000 (length valid),
                     default_value = 500\<rparr>
                    (take max_points valid))"
  using assms by (simp add: map_view_def dropna_subset_def boolean_index_def Let_def)

lemma geo_table_valid:
  "filter (\<lambda>r. Latitude r \<noteq> None \<and> Longitude r \<noteq> None) (rows geo_table)
   = map geo_incident [0..<500]"
  by (simp add: geo_table_def incident_def geo_incident_def filter_map comp_def del: not_None_eq)

lemma map_view_geo_table:
  "map_view geo_table 100 =
     Inr (ScatterMap \<lparr>min_value = 100, max_value = 500, default_value = 500\<rparr>
            (map geo_incident [0..<100]))"
proof -
  have c: "''Latitude'' \<in> set (columns geo_table)" "''Longitude'' \<in> set (columns geo_table)"
    by (simp_all add: geo_table_def all_columns_def)
  have t: "take 100 (map geo_incident [0..<500]) = map geo_incident [0..<100]"
    by (simp add: take_map)
  show ?thesis
    using map_view_with_coordinates [OF c, of 100]
    by (simp add: geo_table_valid t del: not_None_eq)
qed

text \<open>
  C8. The map view on a filtered view that lacks a coordinate column: line 198 raises
  KeyError where the specification has the warning shown. And with both columns but
  only three rows that have coordinates, the script hands the slider the least value 100
  and the default 500, both above the greatest value 3, so that no limit lies within
  the bounds the specification gives; at the default the three rows are plotted.
\<close>

theorem map_view_raises_without_coordinates:
  "map_view (without_column ''Latitude'' geo_table) max_points
     = Inl (KeyError [''Latitude''])
   \<and> map_view (without_column ''Longitude'' geo_table) max_points
     = Inl (KeyError [''Longitude''])
   \<and> map_view (without_column ''Latitude'' (without_column ''Longitude'' geo_table)) max_points
     = Inl (KeyError [''Latitude'', ''Longitude''])
   \<and> map_view few_geo_table 500
     = Inr (ScatterMap \<lparr>min_value = 100, max_value = 3, default_value = 500\<rparr>
              (map geo_incident [0..<3]))"
  by (simp add: map_view_def dropna_subset_def boolean_index_def without_column_def
        geo_table_def few_geo_table_def all_columns_def geo_incident_def filter_map comp_def
        del: not_None_eq)

section \<open>Arrest rate by crime type: properties\<close>


























end
